theory Spec2Isabelle
  imports Main "HOL-Library.Word"
begin

section \<open>Values, strings and formatting\<close>

text \<open>
  Go's \<open>int\<close> and \<open>int64\<close> are 64-bit two's complement integers on the platforms the
  service is built for; arithmetic on them wraps silently. They are modelled as
  \<open>64 word\<close> and read through \<open>sint\<close>. Go strings are byte sequences, as \<open>string\<close> is.
\<close>

type_synonym int64 = "64 word"

text \<open>
  A value of type \<open>interface{}\<close> as it occurs in query rows and decoded JSON. A
  \<open>float64\<close> is carried by its IEEE-754 bit pattern; no arithmetic is done on it.
\<close>

datatype any =
    ANil
  | ABool bool
  | AFloat64 "64 word"
  | AString string
  | AInt64 int64
  | AArray "any list"
  | AObject "(string \<times> any) list"

text \<open>Decimal digits of a natural number, most significant first.\<close>

function showNat :: "nat \<Rightarrow> string" where
  "showNat n = (if n < 10 then [''0123456789'' ! n]
                else showNat (n div 10) @ [''0123456789'' ! (n mod 10)])"
  by pat_completeness auto
termination
  by (relation "measure id") auto

declare showNat.simps [simp del]

text \<open>The verb \<open>%d\<close> of \<open>fmt.Sprintf\<close> and \<open>strconv.Itoa\<close> on a signed integer.\<close>

definition showInt :: "int \<Rightarrow> string" where
  "showInt i = (if i < 0 then CHR ''-'' # showNat (nat (- i)) else showNat (nat i))"

text \<open>\<open>strings.HasPrefix\<close>, \<open>strings.HasSuffix\<close>, \<open>strings.Contains\<close> and \<open>strings.Join\<close>.\<close>

fun HasPrefix :: "string \<Rightarrow> string \<Rightarrow> bool" where
  "HasPrefix s [] = True"
| "HasPrefix [] (p # ps) = False"
| "HasPrefix (c # cs) (p # ps) = (c = p \<and> HasPrefix cs ps)"

definition HasSuffix :: "string \<Rightarrow> string \<Rightarrow> bool" where
  "HasSuffix s suf = HasPrefix (rev s) (rev suf)"

fun Contains :: "string \<Rightarrow> string \<Rightarrow> bool" where
  "Contains [] sub = (sub = [])"
| "Contains (c # cs) sub = (HasPrefix (c # cs) sub \<or> Contains cs sub)"

fun Join :: "string list \<Rightarrow> string \<Rightarrow> string" where
  "Join [] sep = []"
| "Join [x] sep = x"
| "Join (x # y # ys) sep = x @ sep @ Join (y # ys) sep"

text \<open>
  A Go map as an association list with one entry per key; \<open>mapSet\<close> is the
  assignment \<open>m[k] = v\<close>.
\<close>

fun mapSet :: "'k \<Rightarrow> 'v \<Rightarrow> ('k \<times> 'v) list \<Rightarrow> ('k \<times> 'v) list" where
  "mapSet k v [] = [(k, v)]"
| "mapSet k v ((k', v') # m) = (if k = k' then (k, v) # m else (k', v') # mapSet k v m)"

section \<open>Error taxonomy (pkg/common/errors)\<close>

datatype ErrorCode =
    UnknownError | NotFoundError | InvalidArgument | PermissionDenied
  | RateLimitExceeded | InternalError | DatabaseError | NetworkError
  | ConfigError | SerializationError | DeserializationError | TimeoutError
  | AlreadyExistsError

text \<open>
  \<open>AppError\<close>. The wrapped original error comes from the standard library and is kept
  as its text; the captured stack trace depends on the run and is left out.
\<close>

record AppError =
  Code :: ErrorCode
  Message :: string
  Err :: "string option"

definition New :: "ErrorCode \<Rightarrow> string \<Rightarrow> AppError" where
  "New code message = \<lparr>Code = code, Message = message, Err = None\<rparr>"

text \<open>\<open>Wrap\<close> and \<open>Wrapf\<close> on a non-nil standard-library error with text \<open>err\<close>.\<close>

definition Wrap :: "string \<Rightarrow> ErrorCode \<Rightarrow> string \<Rightarrow> AppError" where
  "Wrap err code message = \<lparr>Code = code, Message = message, Err = Some err\<rparr>"

text \<open>
  How a call ends when it does not return its result: with an error value, or with a
  run-time panic.
\<close>

datatype failure = Failed AppError | Panicked string

section \<open>Pagination (pkg/common/types)\<close>

record PaginationRequest =
  Page :: int64
  PageSize :: int64

text \<open>
  \<open>GetOffset\<close> and \<open>GetLimit\<close> have a pointer receiver and overwrite non-positive
  fields; the updated request is returned next to the result.
\<close>

definition GetOffset :: "PaginationRequest \<Rightarrow> PaginationRequest \<times> int64" where
  "GetOffset pr =
     (let pr1 = (if sint (Page pr) \<le> 0 then pr\<lparr>Page := 1\<rparr> else pr);
          pr2 = (if sint (PageSize pr1) \<le> 0 then pr1\<lparr>PageSize := 10\<rparr> else pr1)
      in (pr2, (Page pr2 - 1) * PageSize pr2))"

definition GetLimit :: "PaginationRequest \<Rightarrow> PaginationRequest \<times> int64" where
  "GetLimit pr =
     (let pr1 = (if sint (PageSize pr) \<le> 0 then pr\<lparr>PageSize := 10\<rparr> else pr)
      in (pr1, PageSize pr1))"

section \<open>Search requests and results (pkg/domain/query/model, pkg/adapter/starrocks)\<close>

record QueryStats =
  ScanRows :: int64
  ScanBytes :: int64
  Duration :: int64
  PeakMemory :: int64
  CPUTime :: int64
  StatsMessage :: string

record QueryResult =
  Columns :: "string list"
  Rows :: "any list list"
  Error :: "AppError option"
  Stats :: "QueryStats option"

record TimeRange =
  StartTime :: int
  EndTime :: int

record SortField =
  Field :: string
  Order :: string

record FullTextSearchRequest =
  Keywords :: string
  TargetTables :: "string list"
  TargetFields :: "string list"
  Tokenizer :: string
  RecallPriority :: bool
  Pagination :: "PaginationRequest option"
  TimeRangeFilter :: "TimeRange option"
  SortBy :: "SortField list"
  AdditionalFilters :: "(string \<times> any) list"

text \<open>\<open>Score\<close> is a \<open>float32\<close>, kept as its bit pattern; \<open>Timestamp\<close> is a nullable time.\<close>

record SearchHit =
  SourceTable :: string
  ID :: string
  Score :: "32 word"
  Document :: "(string \<times> any) list"
  HitFields :: "(string \<times> string) list"
  Timestamp :: "int option"

text \<open>
  The result. \<open>Search\<close> stores the request's own pagination value in the field
  \<open>Pagination\<close>, so that field has the request's type here.
\<close>

record FullTextSearchResult =
  Hits :: "SearchHit list"
  ResultPagination :: "PaginationRequest option"
  TotalHits :: int64
  ExecutionTime :: int64

section \<open>The search orchestrator (fullTextSearchSubServiceImpl.Search)\<close>

text \<open>
  \<open>strings.ToLower\<close> depends on the Unicode case tables of the standard library and
  is a parameter \<open>ToLower\<close> of the functions below. The calls of the logger are left
  out here; \<open>Search\<close> returns, next to its outcome, the statements it has executed.
\<close>

definition matchOperator :: "FullTextSearchRequest \<Rightarrow> string" where
  "matchOperator req = (if \<not> RecallPriority req then ''MATCH_ALL'' else ''MATCH_ANY'')"

text \<open>The loop that appends one clause \<open>field op 'keywords'\<close> per field.\<close>

fun matchClauses :: "string \<Rightarrow> string \<Rightarrow> string list \<Rightarrow> string list \<Rightarrow> string list" where
  "matchClauses op kw [] acc = acc"
| "matchClauses op kw (field # rest) acc =
     matchClauses op kw rest
       (acc @ [field @ '' '' @ op @ '' '' @ [CHR 0x27] @ kw @ [CHR 0x27]])"

text \<open>The statement sent for one table, from its clauses: lines 108 to 129.\<close>

definition tableSQL :: "string \<Rightarrow> string list \<Rightarrow> string" where
  "tableSQL tableName clauses =
     (let whereClause = Join clauses '' OR '';
          sql = ''SELECT * FROM '' @ tableName @ '' WHERE '' @ whereClause;
          limit = (1000 :: int);
          offset = (0 :: int)
      in sql @ '' LIMIT '' @ showInt limit @ '' OFFSET '' @ showInt offset)"

definition snippetOf :: "string \<Rightarrow> string" where
  "snippetOf valStr = (if length valStr > 100 then take 100 valStr @ ''...'' else valStr)"

text \<open>The inner loop over the searched fields, for one column of one row.\<close>

fun hitFieldsLoop ::
  "(string \<Rightarrow> string) \<Rightarrow> string \<Rightarrow> string \<Rightarrow> any \<Rightarrow> string list \<Rightarrow>
   (string \<times> string) list \<Rightarrow> (string \<times> string) list" where
  "hitFieldsLoop ToLower kw colName v [] hitFieldsMap = hitFieldsMap"
| "hitFieldsLoop ToLower kw colName v (searchedField # rest) hitFieldsMap =
     hitFieldsLoop ToLower kw colName v rest
       (if colName = searchedField then
          (case v of
             AString valStr \<Rightarrow>
               if Contains (ToLower valStr) (ToLower kw)
               then mapSet colName (snippetOf valStr) hitFieldsMap
               else hitFieldsMap
           | _ \<Rightarrow> hitFieldsMap)
        else hitFieldsMap)"

definition docIDOf :: "(string \<Rightarrow> string) \<Rightarrow> string \<Rightarrow> any \<Rightarrow> string \<Rightarrow> string" where
  "docIDOf ToLower colName v docID =
     (if ToLower colName = ''id'' \<or> HasSuffix (ToLower colName) ''_id'' then
        (case v of
           AString idVal \<Rightarrow> idVal
         | AInt64 idValInt \<Rightarrow> showInt (sint idValInt)
         | _ \<Rightarrow> docID)
      else docID)"

text \<open>
  The loop over the columns of a row. Column \<open>j\<close> is used only while \<open>j\<close> is below the
  length of the row, so the loop walks columns and row values side by side.
\<close>

fun columnsLoop ::
  "(string \<Rightarrow> string) \<Rightarrow> string \<Rightarrow> string list \<Rightarrow> string list \<Rightarrow> any list \<Rightarrow>
   (string \<times> any) list \<times> (string \<times> string) list \<times> string \<Rightarrow>
   (string \<times> any) list \<times> (string \<times> string) list \<times> string" where
  "columnsLoop ToLower kw fieldsInTable [] srRow st = st"
| "columnsLoop ToLower kw fieldsInTable (colName # cols) [] st = st"
| "columnsLoop ToLower kw fieldsInTable (colName # cols) (v # vs) (doc, hitFieldsMap, docID) =
     columnsLoop ToLower kw fieldsInTable cols vs
       (mapSet colName v doc,
        hitFieldsLoop ToLower kw colName v fieldsInTable hitFieldsMap,
        docIDOf ToLower colName v docID)"

definition rowToHit ::
  "(string \<Rightarrow> string) \<Rightarrow> string \<Rightarrow> string list \<Rightarrow> string \<Rightarrow> string list \<Rightarrow> any list \<Rightarrow>
   SearchHit" where
  "rowToHit ToLower kw fieldsInTable tableName cols srRow =
     (case columnsLoop ToLower kw fieldsInTable cols srRow ([], [], []) of
        (doc, hitFieldsMap, docID) \<Rightarrow>
          \<lparr>SourceTable = tableName, ID = docID, Score = 0x3F800000,
           Document = doc, HitFields = hitFieldsMap, Timestamp = None\<rparr>)"

fun rowsLoop ::
  "(string \<Rightarrow> string) \<Rightarrow> string \<Rightarrow> string list \<Rightarrow> string \<Rightarrow> string list \<Rightarrow> any list list \<Rightarrow>
   SearchHit list \<Rightarrow> SearchHit list" where
  "rowsLoop ToLower kw fieldsInTable tableName cols [] allHits = allHits"
| "rowsLoop ToLower kw fieldsInTable tableName cols (srRow # rows) allHits =
     rowsLoop ToLower kw fieldsInTable tableName cols rows
       (allHits @ [rowToHit ToLower kw fieldsInTable tableName cols srRow])"

text \<open>
  The loop over the target tables. The client's \<open>Execute\<close> is the function \<open>exec\<close>
  from the statement to its outcome. The state is the hits collected so far, the running
  total, and the statements executed so far.
\<close>

fun tablesLoop ::
  "(string \<Rightarrow> string) \<Rightarrow> (string \<Rightarrow> AppError + QueryResult) \<Rightarrow> FullTextSearchRequest \<Rightarrow>
   string list \<Rightarrow> SearchHit list \<Rightarrow> int64 \<Rightarrow> string list \<Rightarrow>
   string list \<times> (AppError + SearchHit list \<times> int64)" where
  "tablesLoop ToLower exec req [] allHits totalHits executed = (executed, Inr (allHits, totalHits))"
| "tablesLoop ToLower exec req (tableName # tables) allHits totalHits executed =
     (if length (TargetFields req) > 0 then
        (let fieldsInTable = TargetFields req;
             clauses = matchClauses (matchOperator req) (Keywords req) fieldsInTable []
         in if length clauses = 0 then tablesLoop ToLower exec req tables allHits totalHits executed
            else
              (let sql = tableSQL tableName clauses
               in case exec sql of
                    Inl err \<Rightarrow> tablesLoop ToLower exec req tables allHits totalHits (executed @ [sql])
                  | Inr srResult \<Rightarrow>
                      tablesLoop ToLower exec req tables
                        (rowsLoop ToLower (Keywords req) fieldsInTable tableName
                           (Columns srResult) (Rows srResult) allHits)
                        (totalHits + of_nat (length (Rows srResult)))
                        (executed @ [sql])))
      else
        (executed,
         Inl (New InvalidArgument
                (''TargetFields must be specified for table '' @ tableName @
                 '' (auto-discovery not yet implemented)''))))"

text \<open>
  The pagination window applied to the collected hits: lines 193 to 220. The slice
  expression \<open>allHits[start:end]\<close> panics when \<open>end\<close> is below \<open>start\<close>.
\<close>

definition paginateHits ::
  "PaginationRequest option \<Rightarrow> 'a list \<Rightarrow> failure + 'a list \<times> PaginationRequest option" where
  "paginateHits pagination allHits =
     (case pagination of
        None \<Rightarrow> Inr (allHits, None)
      | Some p \<Rightarrow>
          (case GetOffset p of (p1, start0) \<Rightarrow>
           case GetLimit p1 of (p2, limit) \<Rightarrow>
             (let end0 = sint (start0 + limit);
                  start = (if sint start0 < 0 then 0 else sint start0)
              in if start \<ge> int (length allHits) then Inr ([], Some p2)
                 else
                   (let end = (if end0 > int (length allHits) then int (length allHits) else end0)
                    in if end < start then Inl (Panicked ''slice bounds out of range'')
                       else Inr (take (nat end - nat start) (drop (nat start) allHits), Some p2)))))"

definition Search ::
  "(string \<Rightarrow> string) \<Rightarrow> (string \<Rightarrow> AppError + QueryResult) \<Rightarrow> FullTextSearchRequest \<Rightarrow>
   string list \<times> (failure + FullTextSearchResult)" where
  "Search ToLower exec req =
     (if length (TargetTables req) > 0 then
        (case tablesLoop ToLower exec req (TargetTables req) [] 0 [] of
           (executed, Inl err) \<Rightarrow> (executed, Inl (Failed err))
         | (executed, Inr (allHits, totalHitsAcrossTables)) \<Rightarrow>
             (case paginateHits (Pagination req) allHits of
                Inl f \<Rightarrow> (executed, Inl f)
              | Inr (paginatedHits, finalPagination) \<Rightarrow>
                  (executed,
                   Inr \<lparr>Hits = paginatedHits, ResultPagination = finalPagination,
                        TotalHits = totalHitsAcrossTables, ExecutionTime = 0\<rparr>)))
      else
        ([], Inl (Failed (New InvalidArgument
           (''TargetTables must be specified for full-text search '' @
            ''(auto-discovery not yet implemented)'')))))"

section \<open>The engine's HTTP client (pkg/adapter/starrocks)\<close>

record StarRocksConfig =
  Hosts :: "string list"
  QueryPort :: int64
  User :: string
  Password :: string
  Database :: string
  ConnectTimeout :: int64
  QueryTimeout :: int64
  LoadURL :: string

text \<open>
  The client after \<open>NewClient\<close>: \<open>feHosts\<close> is not empty and \<open>loadURLIdx\<close> is below
  its length.
\<close>

record starrocksClient =
  cfg :: StarRocksConfig
  feHosts :: "string list"
  loadURLIdx :: nat

text \<open>
  \<open>NewClient\<close> refuses an empty host list, gives a host without a port the query port
  (8030 when that is 0), and starts the load index at \<open>rand.Intn\<close> of the number of
  hosts, the draw \<open>r\<close> reduced modulo that number.
\<close>

definition NewClient :: "StarRocksConfig \<Rightarrow> nat \<Rightarrow> AppError + starrocksClient" where
  "NewClient config r =
     (if length (Hosts config) = 0 then
        Inl (New ConfigError ''StarRocks FE hosts are not configured'')
      else
        (let parsedHosts =
               map (\<lambda>h. if \<not> Contains h '':'' then
                          h @ '':'' @
                          showInt (sint (if QueryPort config = 0 then 8030 else QueryPort config))
                        else h)
                 (Hosts config)
         in Inr \<lparr>cfg = config, feHosts = parsedHosts,
                 loadURLIdx = r mod length parsedHosts\<rparr>))"

text \<open>
  A request as the client prepares it. \<open>Header\<close> is the header map after the calls of
  \<open>Header.Set\<close>: one entry for each canonical key, holding the value set last.
\<close>

record Request =
  Method :: string
  URL :: string
  Header :: "(string \<times> string) list"
  Body :: string

text \<open>
  What happens to a request: creating it fails, sending it fails, reading the response
  body fails (with the bytes read so far), or a response arrives with its status code,
  status line and body.
\<close>

datatype http_exchange =
    NewRequestError string
  | DoError string
  | ReadError string string
  | Reply int string string

text \<open>The response envelope of a query, as \<open>Execute\<close> declares it.\<close>

record MetaEntry =
  MetaName :: string
  MetaType :: string

record srQueryResp =
  Msg :: string
  RespCode :: int64
  DataType :: string
  Meta :: "MetaEntry list"
  Result :: "any list list"
  Property :: "(string \<times> any) list option"
  Count :: int64

record StreamLoadOptions =
  Format :: string
  ColumnSeparator :: string
  RowDelimiter :: string
  StripOuterArray :: bool
  TimeoutSeconds :: int64
  MaxFilterRatio :: "64 word"
  Headers :: "(string \<times> string) list"
  MergeCondition :: string
  TwoPhaseCommit :: bool
  TransactionID :: string

record StreamLoadResponse =
  TxnID :: int64
  Label :: string
  Status :: string
  ExistingTxnID :: int64
  LoadMessage :: string
  NumberTotalRows :: int64
  NumberLoadedRows :: int64
  NumberFilteredRows :: int64
  NumberUnselectedRows :: int64
  LoadBytes :: int64
  LoadTimeMs :: int64
  BeginTxnTimeMs :: int64
  StreamLoadPutTimeMs :: int64
  ReadDataTimeMs :: int64
  WriteDataTimeMs :: int64
  CommitAndPublishTimeMs :: int64
  ErrorURL :: string

text \<open>The reply to \<open>begin\<close>, and the reply to \<open>commit\<close> and \<open>abort\<close>, as declared.\<close>

record beginResp =
  BeginStatus :: string
  BeginTxnID :: int64
  BeginMsg :: string

record actionResp =
  ActionStatus :: string
  ActionMsg :: string

text \<open>
  What the client takes from outside: the transport, and the standard-library encoders
  and decoders (\<open>base64\<close>, \<open>json.Marshal\<close> of the query payload, \<open>json.Unmarshal\<close>
  into each of the declared structs, the verb \<open>%f\<close>, and the canonical form of a header
  key that \<open>Header.Set\<close> stores under). A decoder returns the text of its error on the
  left.
\<close>

record world =
  Do :: "Request \<Rightarrow> http_exchange"
  EncodeToString :: "string \<Rightarrow> string"
  MarshalQuery :: "string \<Rightarrow> string + string"
  UnmarshalQuery :: "string \<Rightarrow> string + srQueryResp"
  UnmarshalLoad :: "string \<Rightarrow> string + StreamLoadResponse"
  UnmarshalBegin :: "string \<Rightarrow> string + beginResp"
  UnmarshalAction :: "string \<Rightarrow> string + actionResp"
  FormatFloat :: "64 word \<Rightarrow> string"
  CanonicalMIMEHeaderKey :: "string \<Rightarrow> string"

text \<open>
  \<open>Header.Set\<close> replaces whatever the header holds under the canonical form of the key.
  \<open>headerAfter\<close> is the header of a new request after a sequence of such calls.
\<close>

definition HeaderSet ::
  "world \<Rightarrow> string \<Rightarrow> string \<Rightarrow> (string \<times> string) list \<Rightarrow> (string \<times> string) list" where
  "HeaderSet w key val header = mapSet (CanonicalMIMEHeaderKey w key) val header"

definition headerAfter :: "world \<Rightarrow> (string \<times> string) list \<Rightarrow> (string \<times> string) list" where
  "headerAfter w calls = foldl (\<lambda>header (key, val). HeaderSet w key val header) [] calls"

definition basicAuth :: "world \<Rightarrow> starrocksClient \<Rightarrow> string" where
  "basicAuth w c =
     ''Basic '' @ EncodeToString w (User (cfg c) @ '':'' @ Password (cfg c))"

text \<open>
  \<open>rand.Intn (len feHosts)\<close> is the draw \<open>r\<close> reduced modulo the number of hosts.
\<close>

definition pickHost :: "starrocksClient \<Rightarrow> nat \<Rightarrow> string" where
  "pickHost c r = feHosts c ! (r mod length (feHosts c))"

subsection \<open>Execute\<close>

text \<open>
  The variadic arguments of \<open>Execute\<close> only cause a warning in the log and are left
  out. The frontend host is drawn with \<open>rand.Intn\<close>.
\<close>

definition queryRequest :: "world \<Rightarrow> starrocksClient \<Rightarrow> nat \<Rightarrow> string \<Rightarrow> Request" where
  "queryRequest w c r jsonPayload =
     (let feHostOnly = takeWhile (\<lambda>ch. ch \<noteq> CHR '':'') (pickHost c r);
          queryPort = (if QueryPort (cfg c) = 0 then 8030 else QueryPort (cfg c));
          srURL = ''http://'' @ feHostOnly @ '':'' @ showInt (sint queryPort) @ ''/api/v1/query''
      in \<lparr>Method = ''POST'', URL = srURL,
          Header =
            headerAfter w
              ([(''Content-Type'', ''application/json;charset=UTF-8''),
                (''Authorization'', basicAuth w c)] @
               (if Database (cfg c) \<noteq> [] then [(''Database'', Database (cfg c))] else [])),
          Body = jsonPayload\<rparr>)"

text \<open>The result built from a response envelope whose code is 0: lines 200 to 217.\<close>

definition queryResultOf :: "srQueryResp \<Rightarrow> QueryResult" where
  "queryResultOf srResp =
     (let stats0 = \<lparr>ScanRows = 0, ScanBytes = 0, Duration = 0, PeakMemory = 0, CPUTime = 0,
                     StatsMessage = []\<rparr>;
          stats =
            (case Property srResp of
               None \<Rightarrow> stats0
             | Some property \<Rightarrow>
                 (case map_of property ''Time'' of
                    Some (AString val) \<Rightarrow> stats0\<lparr>StatsMessage := ''Time: '' @ val\<rparr>
                  | _ \<Rightarrow> stats0))
      in \<lparr>Columns = map MetaName (Meta srResp), Rows = Result srResp, Error = None,
          Stats = Some stats\<rparr>)"

definition Execute ::
  "world \<Rightarrow> starrocksClient \<Rightarrow> nat \<Rightarrow> string \<Rightarrow> AppError + QueryResult" where
  "Execute w c r query =
     (case MarshalQuery w query of
        Inl err \<Rightarrow> Inl (Wrap err SerializationError ''failed to marshal query payload'')
      | Inr jsonPayload \<Rightarrow>
          (case Do w (queryRequest w c r jsonPayload) of
             NewRequestError err \<Rightarrow>
               Inl (Wrap err NetworkError ''failed to create HTTP request for StarRocks query'')
           | DoError err \<Rightarrow> Inl (Wrap err NetworkError ''failed to execute StarRocks query'')
           | ReadError err partial \<Rightarrow>
               Inl (Wrap err NetworkError ''failed to read StarRocks query response body'')
           | Reply statusCode status bodyBytes \<Rightarrow>
               if statusCode \<noteq> 200 then
                 Inl (New DatabaseError
                        (''StarRocks query failed: '' @ status @ '', Response: '' @ bodyBytes))
               else
                 (case UnmarshalQuery w bodyBytes of
                    Inl err \<Rightarrow>
                      Inl (Wrap err DeserializationError
                             (''failed to unmarshal StarRocks response: '' @ bodyBytes))
                  | Inr srResp \<Rightarrow>
                      if RespCode srResp \<noteq> 0 then
                        Inl (New DatabaseError
                               (''StarRocks query error: Code '' @ showInt (sint (RespCode srResp)) @
                                '', Msg: '' @ Msg srResp))
                      else Inr (queryResultOf srResp))))"

subsection \<open>StreamLoad\<close>

text \<open>The defaults applied to the options before anything else: lines 227 to 235.\<close>

definition defaultedOptions :: "StreamLoadOptions option \<Rightarrow> StreamLoadOptions" where
  "defaultedOptions opts =
     (let opts0 =
            (case opts of
               None \<Rightarrow>
                 \<lparr>Format = [], ColumnSeparator = [], RowDelimiter = [], StripOuterArray = False,
                  TimeoutSeconds = 0, MaxFilterRatio = 0, Headers = [], MergeCondition = [],
                  TwoPhaseCommit = False, TransactionID = []\<rparr>
             | Some given \<Rightarrow> given);
          opts1 = (if Format opts0 = [] then opts0\<lparr>Format := ''json''\<rparr> else opts0);
          opts2 = (if TimeoutSeconds opts1 = 0 then opts1\<lparr>TimeoutSeconds := 300\<rparr> else opts1)
      in opts2)"

text \<open>
  \<open>getStreamLoadURL\<close> hands out the hosts in turn and advances the client's index.
\<close>

definition getStreamLoadURL ::
  "starrocksClient \<Rightarrow> string \<Rightarrow> string \<Rightarrow> string \<times> starrocksClient" where
  "getStreamLoadURL c database table =
     (let idx = loadURLIdx c
      in (''http://'' @ feHosts c ! idx @ ''/api/'' @ database @ ''/'' @ table @ ''/_stream_load'',
          c\<lparr>loadURLIdx := (loadURLIdx c + 1) mod length (feHosts c)\<rparr>))"

text \<open>
  The comparison \<open>x > 0\<close> on a \<open>float64\<close> given by its bits: the sign bit is clear and
  the value is neither zero nor a NaN.
\<close>

definition float64Positive :: "64 word \<Rightarrow> bool" where
  "float64Positive bits = (0 < bits \<and> bits \<le> 0x7FF0000000000000)"

text \<open>
  The calls of \<open>Header.Set\<close> on a load request, in order, from options that already
  carry their defaults: lines 245 to 276. The custom headers are set in the order the map
  is walked, after the headers made from the options and before the merge condition.
\<close>

definition streamLoadHeaderCalls ::
  "world \<Rightarrow> starrocksClient \<Rightarrow> StreamLoadOptions \<Rightarrow> (string \<times> string) list" where
  "streamLoadHeaderCalls w c opts =
     [(''Authorization'', basicAuth w c),
      (''Expect'', ''100-continue''),
      (''Content-Type'', ''application/octet-stream''),
      (''format'', Format opts)] @
     (if Format opts = ''csv'' \<and> ColumnSeparator opts \<noteq> []
      then [(''column_separator'', ColumnSeparator opts)] else []) @
     (if Format opts = ''csv'' \<and> RowDelimiter opts \<noteq> []
      then [(''row_delimiter'', RowDelimiter opts)] else []) @
     (if Format opts = ''json'' \<and> StripOuterArray opts
      then [(''strip_outer_array'', ''true'')] else []) @
     (if float64Positive (MaxFilterRatio opts)
      then [(''max_filter_ratio'', FormatFloat w (MaxFilterRatio opts))] else []) @
     [(''timeout'', showInt (sint (TimeoutSeconds opts)))] @
     (if TwoPhaseCommit opts \<and> TransactionID opts \<noteq> []
      then [(''txn_id'', TransactionID opts), (''two_phase_commit'', ''true'')] else []) @
     Headers opts @
     (if MergeCondition opts \<noteq> [] then [(''merge_condition'', MergeCondition opts)] else [])"

text \<open>
  The header of the load request: every call replaces the value under its canonical key,
  so a custom header can replace a header made from the options.
\<close>

definition streamLoadHeaders ::
  "world \<Rightarrow> starrocksClient \<Rightarrow> StreamLoadOptions \<Rightarrow> (string \<times> string) list" where
  "streamLoadHeaders w c opts = headerAfter w (streamLoadHeaderCalls w c opts)"

definition streamLoadRequest ::
  "world \<Rightarrow> starrocksClient \<Rightarrow> string \<Rightarrow> string \<Rightarrow> string \<Rightarrow> StreamLoadOptions option \<Rightarrow>
   Request" where
  "streamLoadRequest w c database table data opts =
     \<lparr>Method = ''PUT'', URL = fst (getStreamLoadURL c database table),
      Header = streamLoadHeaders w c (defaultedOptions opts), Body = data\<rparr>"

text \<open>
  \<open>StreamLoad\<close> returns a response pointer and an error, either of which may be nil; the
  client with its advanced index is returned with them.
\<close>

definition StreamLoad ::
  "world \<Rightarrow> starrocksClient \<Rightarrow> string \<Rightarrow> string \<Rightarrow> string \<Rightarrow> StreamLoadOptions option \<Rightarrow>
   starrocksClient \<times> StreamLoadResponse option \<times> AppError option" where
  "StreamLoad w c database table data opts =
     (let c' = snd (getStreamLoadURL c database table)
      in case Do w (streamLoadRequest w c database table data opts) of
           NewRequestError err \<Rightarrow>
             (c', None, Some (Wrap err NetworkError ''failed to create StreamLoad HTTP request''))
         | DoError err \<Rightarrow> (c', None, Some (Wrap err NetworkError ''StreamLoad request failed''))
         | ReadError err partial \<Rightarrow>
             (c', None, Some (Wrap err NetworkError ''failed to read StreamLoad response body''))
         | Reply statusCode status bodyBytes \<Rightarrow>
             (case UnmarshalLoad w bodyBytes of
                Inl err \<Rightarrow>
                  if statusCode \<noteq> 200 then
                    (c', None,
                     Some (Wrap err DeserializationError
                             (''StreamLoad failed with status '' @ status @
                              '' and unparsable body: '' @ bodyBytes)))
                  else
                    (c', None,
                     Some (Wrap err DeserializationError
                             (''failed to unmarshal StreamLoad response: '' @ bodyBytes)))
              | Inr srResp \<Rightarrow>
                  if Status srResp \<noteq> ''Success'' \<and> Status srResp \<noteq> ''Publish Timeout'' then
                    (c', Some srResp,
                     Some (New DatabaseError
                             (''StreamLoad failed: Status '' @ Status srResp @ '', Message: '' @
                              LoadMessage srResp @ '', ErrorURL: '' @ ErrorURL srResp)))
                  else (c', Some srResp, None)))"

subsection \<open>The transaction calls\<close>

definition getFeBaseURL :: "starrocksClient \<Rightarrow> nat \<Rightarrow> string" where
  "getFeBaseURL c r = ''http://'' @ pickHost c r"

definition beginRequest ::
  "world \<Rightarrow> starrocksClient \<Rightarrow> nat \<Rightarrow> string \<Rightarrow> string \<Rightarrow> string \<Rightarrow> int64 \<Rightarrow> Request" where
  "beginRequest w c r database table label timeoutSeconds =
     \<lparr>Method = ''PUT'',
      URL = getFeBaseURL c r @ ''/api/'' @ database @ ''/'' @ table @
            ''/_stream_load_2pc?txn_action=begin'',
      Header =
        headerAfter w
          [(''Authorization'', basicAuth w c),
           (''label'', label),
           (''timeout'', showInt (sint timeoutSeconds)),
           (''Expect'', ''100-continue'')],
      Body = []\<rparr>"

text \<open>
  The three transaction calls ignore an error of reading the body and decode the bytes
  read so far.
\<close>

definition BeginTransaction ::
  "world \<Rightarrow> starrocksClient \<Rightarrow> nat \<Rightarrow> string \<Rightarrow> string \<Rightarrow> string \<Rightarrow> int64 \<Rightarrow>
   AppError + int64" where
  "BeginTransaction w c r database table label timeoutSeconds =
     (let decode = (\<lambda>bodyBytes.
            case UnmarshalBegin w bodyBytes of
              Inl err \<Rightarrow>
                Inl (Wrap err DeserializationError
                       (''failed to unmarshal begin transaction response: '' @ bodyBytes))
            | Inr srResp \<Rightarrow>
                if BeginStatus srResp \<noteq> ''Success'' then
                  Inl (New DatabaseError
                         (''failed to begin transaction: '' @ BeginStatus srResp @ '' - '' @
                          BeginMsg srResp))
                else Inr (BeginTxnID srResp))
      in case Do w (beginRequest w c r database table label timeoutSeconds) of
           NewRequestError err \<Rightarrow>
             Inl (Wrap err NetworkError ''failed to create begin transaction request'')
         | DoError err \<Rightarrow> Inl (Wrap err NetworkError ''begin transaction request failed'')
         | ReadError err partial \<Rightarrow> decode partial
         | Reply statusCode status bodyBytes \<Rightarrow> decode bodyBytes)"

definition actionRequest ::
  "world \<Rightarrow> starrocksClient \<Rightarrow> nat \<Rightarrow> string \<Rightarrow> string \<Rightarrow> int64 \<Rightarrow> Request" where
  "actionRequest w c r action database txnID =
     \<lparr>Method = ''PUT'',
      URL = getFeBaseURL c r @ ''/api/'' @ database @ ''/_stream_load_2pc?txn_action='' @ action @
            ''&txn_id='' @ showInt (sint txnID),
      Header = headerAfter w [(''Authorization'', basicAuth w c), (''Expect'', ''100-continue'')],
      Body = []\<rparr>"

text \<open>
  A line written to the logger by \<open>Errorw\<close> or \<open>Infow\<close>: level, message, and the key-value
  pairs given at the call. The two calls below return the lines they write, in order,
  with their result.
\<close>

type_synonym log_line = "string \<times> string \<times> (string \<times> string) list"

definition CommitTransaction ::
  "world \<Rightarrow> starrocksClient \<Rightarrow> nat \<Rightarrow> string \<Rightarrow> int64 \<Rightarrow> log_line list \<times> AppError option" where
  "CommitTransaction w c r database txnID =
     (let decode = (\<lambda>bodyBytes.
            case UnmarshalAction w bodyBytes of
              Inl err \<Rightarrow>
                ([], Some (Wrap err DeserializationError
                        (''failed to unmarshal commit transaction response: '' @ bodyBytes)))
            | Inr srResp \<Rightarrow>
                if ActionStatus srResp \<noteq> ''Success'' then
                  ([(''error'', ''Failed to commit transaction'',
                     [(''status'', ActionStatus srResp), (''msg'', ActionMsg srResp)])],
                   Some (New DatabaseError
                          (''failed to commit transaction: '' @ ActionStatus srResp @ '' - '' @
                           ActionMsg srResp)))
                else
                  ([(''info'', ''Transaction committed successfully'',
                     [(''txn_id'', showInt (sint txnID))])],
                   None))
      in case Do w (actionRequest w c r ''commit'' database txnID) of
           NewRequestError err \<Rightarrow>
             ([], Some (Wrap err NetworkError ''failed to create commit transaction request''))
         | DoError err \<Rightarrow>
             ([], Some (Wrap err NetworkError ''commit transaction request failed''))
         | ReadError err partial \<Rightarrow> decode partial
         | Reply statusCode status bodyBytes \<Rightarrow> decode bodyBytes)"

definition AbortTransaction ::
  "world \<Rightarrow> starrocksClient \<Rightarrow> nat \<Rightarrow> string \<Rightarrow> int64 \<Rightarrow> log_line list \<times> AppError option" where
  "AbortTransaction w c r database txnID =
     (let decode = (\<lambda>bodyBytes.
            case UnmarshalAction w bodyBytes of
              Inl err \<Rightarrow>
                ([], Some (Wrap err DeserializationError
                        (''failed to unmarshal abort transaction response: '' @ bodyBytes)))
            | Inr srResp \<Rightarrow>
                ((if ActionStatus srResp \<noteq> ''Success'' then
                    [(''error'', ''Failed to abort transaction cleanly, or already aborted'',
                      [(''status'', ActionStatus srResp), (''msg'', ActionMsg srResp)])]
                  else []) @
                 [(''info'', ''Transaction abort request sent'',
                   [(''txn_id'', showInt (sint txnID)), (''status'', ActionStatus srResp),
                    (''msg'', ActionMsg srResp)])],
                 None))
      in case Do w (actionRequest w c r ''abort'' database txnID) of
           NewRequestError err \<Rightarrow>
             ([], Some (Wrap err NetworkError ''failed to create abort transaction request''))
         | DoError err \<Rightarrow>
             ([], Some (Wrap err NetworkError ''abort transaction request failed''))
         | ReadError err partial \<Rightarrow> decode partial
         | Reply statusCode status bodyBytes \<Rightarrow> decode bodyBytes)"

section \<open>Notions used to state the properties of the search\<close>

text \<open>The statement \<open>Search\<close> builds for one table of a request.\<close>

definition statementFor :: "FullTextSearchRequest \<Rightarrow> string \<Rightarrow> string" where
  "statementFor req tableName =
     tableSQL tableName (matchClauses (matchOperator req) (Keywords req) (TargetFields req) [])"

text \<open>The hits \<open>Search\<close> builds from the result of one table's query, in row order.\<close>

definition hitsOfTable ::
  "(string \<Rightarrow> string) \<Rightarrow> FullTextSearchRequest \<Rightarrow> string \<Rightarrow> QueryResult \<Rightarrow> SearchHit list" where
  "hitsOfTable ToLower req tableName srResult =
     map (rowToHit ToLower (Keywords req) (TargetFields req) tableName (Columns srResult))
       (Rows srResult)"

text \<open>The hits of the tables whose query succeeds, in table order.\<close>

definition collected ::
  "(string \<Rightarrow> string) \<Rightarrow> (string \<Rightarrow> AppError + QueryResult) \<Rightarrow> FullTextSearchRequest \<Rightarrow>
   string list \<Rightarrow> SearchHit list" where
  "collected ToLower exec req tables =
     concat (map (\<lambda>t. case exec (statementFor req t) of
                          Inl err \<Rightarrow> []
                        | Inr srResult \<Rightarrow> hitsOfTable ToLower req t srResult) tables)"


section \<open>Concrete inputs\<close>

text \<open>\<open>strings.ToLower\<close> on strings of ASCII bytes.\<close>

definition asciiToLower :: "string \<Rightarrow> string" where
  "asciiToLower s =
     map (\<lambda>ch. if 65 \<le> (of_char ch :: nat) \<and> (of_char ch :: nat) \<le> 90
               then char_of ((of_char ch :: nat) + 32) else ch) s"

definition exampleRequest :: FullTextSearchRequest where
  "exampleRequest =
     \<lparr>Keywords = ''err'', TargetTables = [''A'', ''B''], TargetFields = [''msg''],
      Tokenizer = [], RecallPriority = True, Pagination = None, TimeRangeFilter = None,
      SortBy = [], AdditionalFilters = []\<rparr>"

definition exampleRows :: QueryResult where
  "exampleRows =
     \<lparr>Columns = [''id'', ''msg''],
      Rows = [[AInt64 1, AString ''Disk ERR''], [AInt64 2, AString ''ok''],
              [AString ''x3'', AString ''err 5'']],
      Error = None, Stats = None\<rparr>"

text \<open>An engine on which the query of table \<open>B\<close> succeeds and every other query fails.\<close>

definition exampleExec :: "string \<Rightarrow> AppError + QueryResult" where
  "exampleExec sql =
     (if sql = ''SELECT * FROM B WHERE msg MATCH_ANY '' @ [CHR 0x27] @ ''err'' @ [CHR 0x27] @
               '' LIMIT 1000 OFFSET 0''
      then Inr exampleRows
      else Inl (Wrap ''connection refused'' NetworkError ''failed to execute StarRocks query''))"




definition exampleFiltered :: FullTextSearchRequest where
  "exampleFiltered =
     exampleRequest
       \<lparr>TimeRangeFilter := Some \<lparr>StartTime = 1700000000, EndTime = 1700003600\<rparr>,
        AdditionalFilters := [(''status'', AString ''active'')]\<rparr>"

text \<open>A client for one frontend host, and engines that answer every request alike.\<close>

definition exampleClient :: starrocksClient where
  "exampleClient =
     \<lparr>cfg = \<lparr>Hosts = [''fe1:8030''], QueryPort = 0, User = ''root'', Password = [],
              Database = ''logs'', ConnectTimeout = 0, QueryTimeout = 0, LoadURL = []\<rparr>,
      feHosts = [''fe1:8030''], loadURLIdx = 0\<rparr>"

definition selectOnePayload :: string where
  \<open>selectOnePayload = ''{"sql":"SELECT 1"}''\<close>

definition okBody :: string where
  \<open>okBody = ''{"code":0,"data":{"meta":[{"name":"x"}],"result":[[1]]}}''\<close>

definition errorCodeBody :: string where
  \<open>errorCodeBody = ''{"code":1064,"msg":"Unknown table"}''\<close>

text \<open>
  The decoders on the bodies used below, and an error on any other body. The number
  \<open>1\<close> of a result row decodes to the \<open>float64\<close> 1.0.
\<close>

definition exampleUnmarshalQuery :: "string \<Rightarrow> string + srQueryResp" where
  "exampleUnmarshalQuery body =
     (if body = okBody then
        Inr \<lparr>Msg = [], RespCode = 0, DataType = [],
             Meta = [\<lparr>MetaName = ''x'', MetaType = []\<rparr>],
             Result = [[AFloat64 0x3FF0000000000000]], Property = None, Count = 0\<rparr>
      else if body = errorCodeBody then
        Inr \<lparr>Msg = ''Unknown table'', RespCode = 1064, DataType = [], Meta = [], Result = [],
             Property = None, Count = 0\<rparr>
      else Inl ''invalid character in response'')"

definition emptyLoadResponse :: StreamLoadResponse where
  "emptyLoadResponse =
     \<lparr>TxnID = 0, Label = [], Status = [], ExistingTxnID = 0, LoadMessage = [],
      NumberTotalRows = 0, NumberLoadedRows = 0, NumberFilteredRows = 0,
      NumberUnselectedRows = 0, LoadBytes = 0, LoadTimeMs = 0, BeginTxnTimeMs = 0,
      StreamLoadPutTimeMs = 0, ReadDataTimeMs = 0, WriteDataTimeMs = 0,
      CommitAndPublishTimeMs = 0, ErrorURL = []\<rparr>"

definition publishTimeoutBody :: string where
  \<open>publishTimeoutBody =
     ''{"Status":"Publish Timeout","TxnId":7,"NumberTotalRows":2,"NumberLoadedRows":2}''\<close>

definition failBody :: string where
  \<open>failBody = ''{"Status":"Fail","Message":"too many filtered rows","ErrorURL":"http://fe1/e"}''\<close>

definition publishTimeoutResponse :: StreamLoadResponse where
  "publishTimeoutResponse =
     emptyLoadResponse\<lparr>TxnID := 7, Status := ''Publish Timeout'', NumberTotalRows := 2,
                       NumberLoadedRows := 2\<rparr>"

definition failResponse :: StreamLoadResponse where
  "failResponse =
     emptyLoadResponse\<lparr>Status := ''Fail'', LoadMessage := ''too many filtered rows'',
                       ErrorURL := ''http://fe1/e''\<rparr>"

definition exampleUnmarshalLoad :: "string \<Rightarrow> string + StreamLoadResponse" where
  "exampleUnmarshalLoad body =
     (if body = publishTimeoutBody then Inr publishTimeoutResponse
      else if body = failBody then Inr failResponse
      else Inl ''invalid character in response'')"

definition beginNewBody :: string where
  \<open>beginNewBody = ''{"Status":"Success","TxnId":1001}''\<close>

definition beginDuplicateAcceptedBody :: string where
  \<open>beginDuplicateAcceptedBody = ''{"Status":"Success","TxnId":1001,"ExistingTxnId":1001}''\<close>

definition beginDuplicateRejectedBody :: string where
  \<open>beginDuplicateRejectedBody =
     ''{"Status":"Label Already Exists","ExistingTxnId":1001,"msg":"label in use"}''\<close>

text \<open>
  The struct that \<open>BeginTransaction\<close> decodes into has the fields \<open>Status\<close>, \<open>TxnId\<close> and
  \<open>msg\<close>; any other key of the body is dropped by the decoder.
\<close>

definition exampleUnmarshalBegin :: "string \<Rightarrow> string + beginResp" where
  "exampleUnmarshalBegin body =
     (if body = beginNewBody \<or> body = beginDuplicateAcceptedBody then
        Inr \<lparr>BeginStatus = ''Success'', BeginTxnID = 1001, BeginMsg = []\<rparr>
      else if body = beginDuplicateRejectedBody then
        Inr \<lparr>BeginStatus = ''Label Already Exists'', BeginTxnID = 0, BeginMsg = ''label in use''\<rparr>
      else Inl ''invalid character in response'')"

definition actionFailedBody :: string where
  \<open>actionFailedBody = ''{"Status":"Failed","msg":"transaction not found"}''\<close>

definition exampleUnmarshalAction :: "string \<Rightarrow> string + actionResp" where
  "exampleUnmarshalAction body =
     (if body = actionFailedBody then
        Inr \<lparr>ActionStatus = ''Failed'', ActionMsg = ''transaction not found''\<rparr>
      else Inl ''invalid character in response'')"

text \<open>
  The canonical form of a header key as \<open>net/textproto\<close> computes it: a key made of
  token bytes only gets an upper-case first letter and an upper-case letter after each
  hyphen, and lower-case letters elsewhere; any other key is left as it is.
\<close>

definition validHeaderFieldByte :: "char \<Rightarrow> bool" where
  "validHeaderFieldByte ch =
     (let n = (of_char ch :: nat)
      in (48 \<le> n \<and> n \<le> 57) \<or> (65 \<le> n \<and> n \<le> 90) \<or> (97 \<le> n \<and> n \<le> 122) \<or>
         n \<in> set [33, 35, 36, 37, 38, 39, 42, 43, 45, 46, 94, 95, 96, 124, 126])"

fun canonicalLoop :: "bool \<Rightarrow> string \<Rightarrow> string" where
  "canonicalLoop upper [] = []"
| "canonicalLoop upper (ch # rest) =
     (let n = (of_char ch :: nat);
          ch' = (if upper \<and> 97 \<le> n \<and> n \<le> 122 then char_of (n - 32)
                 else if \<not> upper \<and> 65 \<le> n \<and> n \<le> 90 then char_of (n + 32)
                 else ch)
      in ch' # canonicalLoop (ch' = CHR ''-'') rest)"

definition exampleCanonicalKey :: "string \<Rightarrow> string" where
  "exampleCanonicalKey key =
     (if list_all validHeaderFieldByte key then canonicalLoop True key else key)"

definition mockWorld :: "http_exchange \<Rightarrow> world" where
  \<open>mockWorld x =
     \<lparr>Do = (\<lambda>req. x),
      EncodeToString = (\<lambda>s. if s = ''root:'' then ''cm9vdDo='' else []),
      MarshalQuery = (\<lambda>query. Inr (''{"sql":"'' @ query @ ''"}'')),
      UnmarshalQuery = exampleUnmarshalQuery,
      UnmarshalLoad = exampleUnmarshalLoad,
      UnmarshalBegin = exampleUnmarshalBegin,
      UnmarshalAction = exampleUnmarshalAction,
      FormatFloat = (\<lambda>bits. if bits = 0x3FB999999999999A then ''0.100000'' else []),
      CanonicalMIMEHeaderKey = exampleCanonicalKey\<rparr>\<close>

definition csvOptions :: StreamLoadOptions where
  "csvOptions =
     \<lparr>Format = ''csv'', ColumnSeparator = '','', RowDelimiter = [], StripOuterArray = False,
      TimeoutSeconds = 60, MaxFilterRatio = 0x3FB999999999999A, Headers = [],
      MergeCondition = [], TwoPhaseCommit = False, TransactionID = []\<rparr>"

text \<open>Options that leave the format unset and carry a custom header named \<open>format\<close>.\<close>

definition overridingOptions :: StreamLoadOptions where
  "overridingOptions =
     \<lparr>Format = [], ColumnSeparator = [], RowDelimiter = [], StripOuterArray = False,
      TimeoutSeconds = 0, MaxFilterRatio = 0, Headers = [(''format'', ''csv'')],
      MergeCondition = [], TwoPhaseCommit = False, TransactionID = []\<rparr>"

section \<open>Facts about the formatting and the loops\<close>

lemma showInt_1000: "showInt 1000 = ''1000''"
  by code_simp

lemma showInt_0: "showInt 0 = ''0''"
  by code_simp

lemma matchClauses_map:
  "matchClauses op kw fs acc =
     acc @ map (\<lambda>f. f @ '' '' @ op @ '' '' @ [CHR 0x27] @ kw @ [CHR 0x27]) fs"
  by (induction fs arbitrary: acc) simp_all

lemma Join_closed: "Join (x # xs) sep = x @ concat (map (\<lambda>y. sep @ y) xs)"
  by (induction xs arbitrary: x) simp_all

lemma rowsLoop_map:
  "rowsLoop lw kw fs t cols rows acc = acc @ map (rowToHit lw kw fs t cols) rows"
  by (induction rows arbitrary: acc) simp_all

lemma tablesLoop_collect:
  assumes "TargetFields req \<noteq> []"
  shows "tablesLoop lw exec req ts hits tot ex =
           (ex @ map (statementFor req) ts,
            Inr (hits @ collected lw exec req ts,
                 tot + of_nat (length (collected lw exec req ts))))"
proof (induction ts arbitrary: hits tot ex)
  case Nil
  show ?case by (simp add: collected_def)
next
  case (Cons t ts)
  from assms obtain f fs where ffs: "TargetFields req = f # fs" by (cases "TargetFields req") auto
  have ne: "matchClauses (matchOperator req) (Keywords req) (TargetFields req) [] \<noteq> []"
    by (simp add: matchClauses_map ffs)
  show ?case
  proof (cases "exec (statementFor req t)")
    case (Inl e)
    then show ?thesis using assms ne Cons.IH
      by (simp add: Let_def statementFor_def collected_def)
  next
    case (Inr r)
    then show ?thesis using assms ne Cons.IH
      by (simp add: Let_def statementFor_def collected_def rowsLoop_map hitsOfTable_def)
  qed
qed

lemma Search_collect:
  assumes "TargetFields req \<noteq> []" "TargetTables req \<noteq> []"
  shows "Search lw exec req =
           (map (statementFor req) (TargetTables req),
            case paginateHits (Pagination req) (collected lw exec req (TargetTables req)) of
              Inl f \<Rightarrow> Inl f
            | Inr (ph, fp) \<Rightarrow>
                Inr \<lparr>Hits = ph, ResultPagination = fp,
                     TotalHits = of_nat (length (collected lw exec req (TargetTables req))),
                     ExecutionTime = 0\<rparr>)"
  using assms by (simp add: Search_def tablesLoop_collect split: sum.splits prod.splits)



section \<open>Properties of pagination\<close>


lemma sint64_eqI:
  assumes "- (2 ^ 63) \<le> k" "k < 2 ^ 63"
  shows "signed_take_bit 63 k = (k :: int)"
  using assms by (simp add: signed_take_bit_int_eq_self)



text \<open>
  The window of 25 hits for page 2 of size 10 is the hits at positions 10 to 19, and page
  4 of size 10 is empty.
\<close>

lemma paginateHits_examples:
  "paginateHits (Some \<lparr>Page = 2, PageSize = 10\<rparr>) [0 ..< 25 :: nat] =
     Inr ([10 ..< 20], Some \<lparr>Page = 2, PageSize = 10\<rparr>)
   \<and> paginateHits (Some \<lparr>Page = 4, PageSize = 10\<rparr>) [0 ..< 25 :: nat] =
     Inr ([], Some \<lparr>Page = 4, PageSize = 10\<rparr>)"
  by code_simp

text \<open>
  C4. With 25 hits, page 5 of size \<open>2^62\<close> has its offset \<open>4 * 2^62\<close> wrap around to 0
  and comes back as the first page, all 25 hits; page 3 of that size has its offset wrap
  to \<open>- 2^63\<close> and its end to \<open>- 2^62\<close>, and the slice expression panics.
\<close>

theorem paginate_wraps_around:
  "paginateHits (Some \<lparr>Page = 5, PageSize = 4611686018427387904\<rparr>) [0 ..< 25 :: nat] =
     Inr ([0 ..< 25], Some \<lparr>Page = 5, PageSize = 4611686018427387904\<rparr>)
   \<and> paginateHits (Some \<lparr>Page = 3, PageSize = 4611686018427387904\<rparr>) [0 ..< 25 :: nat] =
     Inl (Panicked ''slice bounds out of range'')"
  by code_simp

section \<open>Properties of the search\<close>




text \<open>
  C9. A request with no target tables, and a request with tables but no target fields,
  make \<open>Search\<close> return an \<open>InvalidArgument\<close> error with no statement executed. \<open>Search\<close>
  has no access to any metadata lookup, so nothing is discovered in their place.
\<close>

theorem search_requires_explicit_targets:
  assumes "TargetTables req = [] \<or> TargetFields req = []"
  shows "\<exists>e. Search ToLower exec req = ([], Inl (Failed e)) \<and> Code e = InvalidArgument"
proof (cases "TargetTables req")
  case Nil
  then show ?thesis by (simp add: Search_def New_def)
next
  case (Cons t ts)
  with assms have "TargetFields req = []" by simp
  with Cons show ?thesis by (simp add: Search_def New_def)
qed

theorem search_requires_explicit_targets_witness:
  "TargetTables (exampleRequest\<lparr>TargetTables := []\<rparr>) = []
   \<and> TargetFields (exampleRequest\<lparr>TargetFields := []\<rparr>) = []
   \<and> (\<exists>e. Search asciiToLower exampleExec (exampleRequest\<lparr>TargetTables := []\<rparr>) =
             ([], Inl (Failed e)) \<and> Code e = InvalidArgument)
   \<and> (\<exists>e. Search asciiToLower exampleExec (exampleRequest\<lparr>TargetFields := []\<rparr>) =
             ([], Inl (Failed e)) \<and> Code e = InvalidArgument)"
proof -
  have t: "TargetTables (exampleRequest\<lparr>TargetTables := []\<rparr>) = []" by simp
  have f: "TargetFields (exampleRequest\<lparr>TargetFields := []\<rparr>) = []" by simp
  from t have t': "TargetTables (exampleRequest\<lparr>TargetTables := []\<rparr>) = [] \<or>
                   TargetFields (exampleRequest\<lparr>TargetTables := []\<rparr>) = []" by blast
  from f have f': "TargetTables (exampleRequest\<lparr>TargetFields := []\<rparr>) = [] \<or>
                   TargetFields (exampleRequest\<lparr>TargetFields := []\<rparr>) = []" by blast
  show ?thesis
    using t f search_requires_explicit_targets [OF t', of asciiToLower exampleExec]
      search_requires_explicit_targets [OF f', of asciiToLower exampleExec]
    by blast
qed

text \<open>
  C5. For every request with tables and fields, the statement executed for each table
  has one predicate per target field, \<open>field MATCH_ANY 'keywords'\<close> when
  \<open>RecallPriority\<close> is true and \<open>field MATCH_ALL 'keywords'\<close> when it is false, and the
  predicates of the table are joined with \<open>OR\<close>.
\<close>

theorem match_operator_follows_recall_priority:
  assumes "TargetTables req \<noteq> []" and "TargetFields req = f # fs"
  shows "fst (Search ToLower exec req) =
           (let op = (if RecallPriority req then ''MATCH_ANY'' else ''MATCH_ALL'');
                predicate = (\<lambda>field. field @ '' '' @ op @ '' '' @ [CHR 0x27] @ Keywords req @ [CHR 0x27])
            in map (\<lambda>tableName.
                      ''SELECT * FROM '' @ tableName @ '' WHERE '' @
                      predicate f @ concat (map (\<lambda>field. '' OR '' @ predicate field) fs) @
                      '' LIMIT 1000 OFFSET 0'')
                 (TargetTables req))"
proof -
  have ne: "TargetFields req \<noteq> []" using assms(2) by simp
  have "statementFor req t =
          ''SELECT * FROM '' @ t @ '' WHERE '' @
          (f @ '' '' @ matchOperator req @ '' '' @ [CHR 0x27] @ Keywords req @ [CHR 0x27]) @
          concat (map (\<lambda>field. '' OR '' @
             (field @ '' '' @ matchOperator req @ '' '' @ [CHR 0x27] @ Keywords req @ [CHR 0x27])) fs) @
          '' LIMIT 1000 OFFSET 0''" for t
    by (simp add: statementFor_def tableSQL_def matchClauses_map assms(2) Join_closed
          showInt_1000 showInt_0 Let_def comp_def)
  then show ?thesis
    using Search_collect [OF ne assms(1), of ToLower exec]
    by (simp add: Let_def matchOperator_def)
qed

theorem match_operator_follows_recall_priority_witness:
  "fst (Search asciiToLower exampleExec (exampleRequest\<lparr>TargetFields := [''msg'', ''title'']\<rparr>)) =
     [''SELECT * FROM A WHERE msg MATCH_ANY '' @ [CHR 0x27] @ ''err'' @ [CHR 0x27] @
      '' OR title MATCH_ANY '' @ [CHR 0x27] @ ''err'' @ [CHR 0x27] @ '' LIMIT 1000 OFFSET 0'',
      ''SELECT * FROM B WHERE msg MATCH_ANY '' @ [CHR 0x27] @ ''err'' @ [CHR 0x27] @
      '' OR title MATCH_ANY '' @ [CHR 0x27] @ ''err'' @ [CHR 0x27] @ '' LIMIT 1000 OFFSET 0'']
   \<and> fst (Search asciiToLower exampleExec
            (exampleRequest\<lparr>TargetFields := [''msg'', ''title''], RecallPriority := False\<rparr>)) =
     [''SELECT * FROM A WHERE msg MATCH_ALL '' @ [CHR 0x27] @ ''err'' @ [CHR 0x27] @
      '' OR title MATCH_ALL '' @ [CHR 0x27] @ ''err'' @ [CHR 0x27] @ '' LIMIT 1000 OFFSET 0'',
      ''SELECT * FROM B WHERE msg MATCH_ALL '' @ [CHR 0x27] @ ''err'' @ [CHR 0x27] @
      '' OR title MATCH_ALL '' @ [CHR 0x27] @ ''err'' @ [CHR 0x27] @ '' LIMIT 1000 OFFSET 0'']"
proof -
  let ?any = "exampleRequest\<lparr>TargetFields := [''msg'', ''title'']\<rparr>"
  let ?all = "exampleRequest\<lparr>TargetFields := [''msg'', ''title''], RecallPriority := False\<rparr>"
  have t1: "TargetTables ?any \<noteq> []" and t2: "TargetTables ?all \<noteq> []"
    by (simp_all add: exampleRequest_def)
  have f1: "TargetFields ?any = ''msg'' # [''title'']"
    and f2: "TargetFields ?all = ''msg'' # [''title'']" by simp_all
  show ?thesis
    using match_operator_follows_recall_priority [OF t1 f1, of asciiToLower exampleExec]
      match_operator_follows_recall_priority [OF t2 f2, of asciiToLower exampleExec]
    by (simp add: exampleRequest_def)
qed

text \<open>
  The time range and the equality filters of a request are never read: changing them
  changes nothing of what \<open>Search\<close> executes or returns.
\<close>

lemma tablesLoop_ignores_filters:
  "tablesLoop ToLower exec (req\<lparr>TimeRangeFilter := tr, AdditionalFilters := af\<rparr>) ts hits n ex =
     tablesLoop ToLower exec req ts hits n ex"
  by (induction ts arbitrary: hits n ex) (simp_all add: matchOperator_def Let_def split: sum.splits)

lemma Search_ignores_filters:
  "Search ToLower exec (req\<lparr>TimeRangeFilter := tr, AdditionalFilters := af\<rparr>) =
     Search ToLower exec req"
  by (simp add: Search_def tablesLoop_ignores_filters)

text \<open>
  C3. \<open>Search\<close> on a request that carries a time range and an equality filter executes,
  for each table, a statement whose \<open>WHERE\<close> clause holds the match predicates only, and
  returns what it returns on the same request without the filters.
\<close>

theorem search_drops_filters:
  "fst (Search asciiToLower exampleExec exampleFiltered) =
     [''SELECT * FROM A WHERE msg MATCH_ANY '' @ [CHR 0x27] @ ''err'' @ [CHR 0x27] @
      '' LIMIT 1000 OFFSET 0'',
      ''SELECT * FROM B WHERE msg MATCH_ANY '' @ [CHR 0x27] @ ''err'' @ [CHR 0x27] @
      '' LIMIT 1000 OFFSET 0'']
   \<and> Search asciiToLower exampleExec exampleFiltered =
       Search asciiToLower exampleExec exampleRequest"
  by code_simp

section \<open>Properties of the client\<close>

text \<open>
  A client made by \<open>NewClient\<close> has a host, and its load index stays below the number
  of hosts however many load addresses are handed out.
\<close>

lemma NewClient_invariant:
  assumes "NewClient config r = Inr c"
  shows "feHosts c \<noteq> [] \<and> loadURLIdx c < length (feHosts c)"
  using assms by (auto simp add: NewClient_def Let_def split: if_splits)

lemma getStreamLoadURL_invariant:
  assumes "feHosts c \<noteq> []"
  shows "feHosts (snd (getStreamLoadURL c database table)) = feHosts c
       \<and> loadURLIdx (snd (getStreamLoadURL c database table)) < length (feHosts c)"
  using assms by (simp add: getStreamLoadURL_def Let_def)

text \<open>
  C8. Once the payload is marshalled, every \<open>Execute\<close> call ends by the taxonomy: a
  request that cannot be created, sent or read gives a \<open>NetworkError\<close> wrapping the
  cause; a response whose HTTP status is not 200 gives a \<open>DatabaseError\<close> whose message
  ends with the raw body; a body of a 200 response that does not decode gives a
  \<open>DeserializationError\<close>; an envelope with a non-zero code gives a \<open>DatabaseError\<close> whose
  message ends with the engine's message; and an envelope with code 0 gives a result whose
  columns are the names of the meta entries in order and whose rows are the result array.
\<close>

theorem Execute_error_taxonomy:
  assumes "MarshalQuery w query = Inr payload"
    and "Do w (queryRequest w c r payload) = x"
  shows "(\<forall>e. x = NewRequestError e \<or> x = DoError e \<or> (\<exists>partial. x = ReadError e partial) \<longrightarrow>
            (\<exists>a. Execute w c r query = Inl a \<and> Code a = NetworkError \<and> Err a = Some e))
       \<and> (\<forall>sc st body. x = Reply sc st body \<and> sc \<noteq> 200 \<longrightarrow>
            Execute w c r query =
              Inl \<lparr>Code = DatabaseError,
                   Message = ''StarRocks query failed: '' @ st @ '', Response: '' @ body,
                   Err = None\<rparr>)
       \<and> (\<forall>st body e. x = Reply 200 st body \<and> UnmarshalQuery w body = Inl e \<longrightarrow>
            Execute w c r query =
              Inl \<lparr>Code = DeserializationError,
                   Message = ''failed to unmarshal StarRocks response: '' @ body,
                   Err = Some e\<rparr>)
       \<and> (\<forall>st body resp.
             x = Reply 200 st body \<and> UnmarshalQuery w body = Inr resp \<and> RespCode resp \<noteq> 0 \<longrightarrow>
            Execute w c r query =
              Inl \<lparr>Code = DatabaseError,
                   Message = ''StarRocks query error: Code '' @ showInt (sint (RespCode resp)) @
                             '', Msg: '' @ Msg resp,
                   Err = None\<rparr>)
       \<and> (\<forall>st body resp.
             x = Reply 200 st body \<and> UnmarshalQuery w body = Inr resp \<and> RespCode resp = 0 \<longrightarrow>
            (\<exists>q. Execute w c r query = Inr q \<and> Columns q = map MetaName (Meta resp) \<and>
                 Rows q = Result resp))"
  using assms
  by (auto simp add: Execute_def Wrap_def New_def queryResultOf_def Let_def)

theorem Execute_error_taxonomy_witness:
  "(\<exists>q. Execute (mockWorld (Reply 200 ''200 OK'' okBody)) exampleClient 0 ''SELECT 1'' = Inr q \<and>
        Columns q = [''x''] \<and> Rows q = [[AFloat64 0x3FF0000000000000]])
   \<and> (\<exists>a. Execute (mockWorld (DoError ''connection refused'')) exampleClient 0 ''SELECT 1'' = Inl a \<and>
          Code a = NetworkError \<and> Err a = Some ''connection refused'')
   \<and> Execute (mockWorld (Reply 500 ''500 Internal Server Error'' ''boom'')) exampleClient 0
        ''SELECT 1'' =
      Inl \<lparr>Code = DatabaseError,
           Message = ''StarRocks query failed: 500 Internal Server Error, Response: boom'',
           Err = None\<rparr>
   \<and> Execute (mockWorld (Reply 200 ''200 OK'' ''<html>'')) exampleClient 0 ''SELECT 1'' =
      Inl \<lparr>Code = DeserializationError,
           Message = ''failed to unmarshal StarRocks response: <html>'',
           Err = Some ''invalid character in response''\<rparr>
   \<and> Execute (mockWorld (Reply 200 ''200 OK'' errorCodeBody)) exampleClient 0 ''SELECT 1'' =
      Inl \<lparr>Code = DatabaseError,
           Message = ''StarRocks query error: Code 1064, Msg: Unknown table'',
           Err = None\<rparr>"
proof -
  have m: "MarshalQuery (mockWorld x) ''SELECT 1'' = Inr selectOnePayload" for x
    by (simp add: mockWorld_def selectOnePayload_def)
  have d: "Do (mockWorld x) req = x" for x req
    by (simp add: mockWorld_def)
  have u: "UnmarshalQuery (mockWorld x) = exampleUnmarshalQuery" for x
    by (simp add: mockWorld_def)
  have ok: "exampleUnmarshalQuery okBody =
        Inr \<lparr>Msg = [], RespCode = 0, DataType = [],
             Meta = [\<lparr>MetaName = ''x'', MetaType = []\<rparr>],
             Result = [[AFloat64 0x3FF0000000000000]], Property = None, Count = 0\<rparr>"
    by (simp add: exampleUnmarshalQuery_def)
  have bad: "exampleUnmarshalQuery ''<html>'' = Inl ''invalid character in response''"
    by code_simp
  have ec: "exampleUnmarshalQuery errorCodeBody =
        Inr \<lparr>Msg = ''Unknown table'', RespCode = 1064, DataType = [], Meta = [], Result = [],
             Property = None, Count = 0\<rparr>"
    by code_simp
  have s: "showInt 1064 = ''1064''"
    by code_simp
  note T = Execute_error_taxonomy [OF m d, of _ exampleClient 0]
  show ?thesis
    using T [of "Reply 200 ''200 OK'' okBody"] T [of "DoError ''connection refused''"]
      T [of "Reply 500 ''500 Internal Server Error'' ''boom''"]
      T [of "Reply 200 ''200 OK'' ''<html>''"] T [of "Reply 200 ''200 OK'' errorCodeBody"]
    by (simp add: u ok bad ec s)
qed

text \<open>
  C6. When the body of the response to a load decodes into a \<open>StreamLoadResponse\<close>, the
  call returns that response in every case, and returns an error exactly when the status
  is neither \<open>Success\<close> nor \<open>Publish Timeout\<close>; the error is then a \<open>DatabaseError\<close>.
\<close>

theorem StreamLoad_error_iff_status:
  assumes "Do w (streamLoadRequest w c database table data opts) = Reply sc st body"
    and "UnmarshalLoad w body = Inr resp"
  shows "fst (snd (StreamLoad w c database table data opts)) = Some resp
       \<and> (snd (snd (StreamLoad w c database table data opts)) \<noteq> None \<longleftrightarrow>
            Status resp \<noteq> ''Success'' \<and> Status resp \<noteq> ''Publish Timeout'')
       \<and> (\<forall>e. snd (snd (StreamLoad w c database table data opts)) = Some e \<longrightarrow>
            Code e = DatabaseError)"
  using assms by (simp add: StreamLoad_def New_def Let_def)

theorem StreamLoad_error_iff_status_witness:
  "snd (StreamLoad (mockWorld (Reply 200 ''200 OK'' publishTimeoutBody)) exampleClient
          ''logs'' ''events'' ''[]'' None) = (Some publishTimeoutResponse, None)
   \<and> fst (snd (StreamLoad (mockWorld (Reply 200 ''200 OK'' failBody)) exampleClient
          ''logs'' ''events'' ''[]'' None)) = Some failResponse
   \<and> (\<exists>e. snd (snd (StreamLoad (mockWorld (Reply 200 ''200 OK'' failBody)) exampleClient
          ''logs'' ''events'' ''[]'' None)) = Some e \<and> Code e = DatabaseError)"
proof -
  let ?P = "mockWorld (Reply 200 ''200 OK'' publishTimeoutBody)"
  let ?F = "mockWorld (Reply 200 ''200 OK'' failBody)"
  have dp: "Do ?P (streamLoadRequest ?P exampleClient ''logs'' ''events'' ''[]'' None) =
              Reply 200 ''200 OK'' publishTimeoutBody"
    by (simp add: mockWorld_def)
  have df: "Do ?F (streamLoadRequest ?F exampleClient ''logs'' ''events'' ''[]'' None) =
              Reply 200 ''200 OK'' failBody"
    by (simp add: mockWorld_def)
  have p: "UnmarshalLoad ?P publishTimeoutBody = Inr publishTimeoutResponse"
    by (simp add: mockWorld_def exampleUnmarshalLoad_def)
  have "failBody \<noteq> publishTimeoutBody"
    by code_simp
  then have f: "UnmarshalLoad ?F failBody = Inr failResponse"
    by (simp add: mockWorld_def exampleUnmarshalLoad_def)
  have sp: "Status publishTimeoutResponse = ''Publish Timeout''"
    by (simp add: publishTimeoutResponse_def)
  have sf: "Status failResponse = ''Fail''"
    by (simp add: failResponse_def)
  show ?thesis
    using StreamLoad_error_iff_status [OF dp p] StreamLoad_error_iff_status [OF df f]
    by (auto simp add: sp sf prod_eq_iff)
qed

text \<open>
  C7. When the engine answers an abort with a status other than \<open>Success\<close>, \<open>Abort\<close> writes
  an error line to the log and returns no error; when it answers a commit with such a
  status, \<open>Commit\<close> returns a \<open>DatabaseError\<close>.
\<close>

theorem abort_tolerates_what_commit_rejects:
  assumes "Do w (actionRequest w c r ''abort'' database txnID) = Reply sc st body"
    and "UnmarshalAction w body = Inr resp"
    and "ActionStatus resp \<noteq> ''Success''"
    and "Do w (actionRequest w c r' ''commit'' database txnID) = Reply sc' st' body'"
    and "UnmarshalAction w body' = Inr resp'"
    and "ActionStatus resp' \<noteq> ''Success''"
  shows "snd (AbortTransaction w c r database txnID) = None
       \<and> (''error'', ''Failed to abort transaction cleanly, or already aborted'',
           [(''status'', ActionStatus resp), (''msg'', ActionMsg resp)])
           \<in> set (fst (AbortTransaction w c r database txnID))
       \<and> (\<exists>e. snd (CommitTransaction w c r' database txnID) = Some e \<and> Code e = DatabaseError)"
  using assms by (simp add: AbortTransaction_def CommitTransaction_def New_def Let_def)

theorem abort_tolerates_what_commit_rejects_witness:
  "snd (AbortTransaction (mockWorld (Reply 200 ''200 OK'' actionFailedBody)) exampleClient 0
          ''logs'' 1001) = None
   \<and> (\<exists>e. snd (CommitTransaction (mockWorld (Reply 200 ''200 OK'' actionFailedBody))
                 exampleClient 0 ''logs'' 1001) = Some e \<and> Code e = DatabaseError)"
proof -
  let ?W = "mockWorld (Reply 200 ''200 OK'' actionFailedBody)"
  have da: "Do ?W (actionRequest ?W exampleClient 0 ''abort'' ''logs'' 1001) =
              Reply 200 ''200 OK'' actionFailedBody"
    by (simp add: mockWorld_def)
  have dc: "Do ?W (actionRequest ?W exampleClient 0 ''commit'' ''logs'' 1001) =
              Reply 200 ''200 OK'' actionFailedBody"
    by (simp add: mockWorld_def)
  have u: "UnmarshalAction ?W actionFailedBody =
             Inr \<lparr>ActionStatus = ''Failed'', ActionMsg = ''transaction not found''\<rparr>"
    by (simp add: mockWorld_def exampleUnmarshalAction_def)
  have s: "ActionStatus \<lparr>ActionStatus = ''Failed'', ActionMsg = ''transaction not found''\<rparr>
             \<noteq> ''Success''"
    by simp
  show ?thesis
    using abort_tolerates_what_commit_rejects [OF da u s dc u s]
    by blast
qed

text \<open>
  The value a header holds under a canonical key is the value of the last call of
  \<open>Header.Set\<close> whose key has that canonical form.
\<close>

lemma map_of_mapSet:
  "map_of (mapSet k v m) k' = (if k' = k then Some v else map_of m k')"
  by (induction m) auto

lemma map_of_HeaderSet:
  "map_of (HeaderSet w key val header) K =
     (if K = CanonicalMIMEHeaderKey w key then Some val else map_of header K)"
  by (simp add: HeaderSet_def map_of_mapSet)

lemma map_of_header_fold:
  "map_of (foldl (\<lambda>header (key, val). HeaderSet w key val header) h calls) K =
     (case map_of (rev (map (\<lambda>(key, val). (CanonicalMIMEHeaderKey w key, val)) calls)) K of
        Some v \<Rightarrow> Some v
      | None \<Rightarrow> map_of h K)"
proof (induction calls arbitrary: h)
  case Nil
  show ?case by simp
next
  case (Cons call calls)
  obtain key val where call: "call = (key, val)" by (cases call)
  show ?case
    by (simp add: Cons.IH call map_of_HeaderSet map_add_def split: option.splits)
qed

lemma headerAfter_last:
  assumes "\<forall>k \<in> fst ` set later. CanonicalMIMEHeaderKey w k \<noteq> CanonicalMIMEHeaderKey w key"
  shows "map_of (headerAfter w (before @ (key, val) # later)) (CanonicalMIMEHeaderKey w key) =
           Some val"
proof -
  have "map_of (rev (map (\<lambda>(key, val). (CanonicalMIMEHeaderKey w key, val)) later))
          (CanonicalMIMEHeaderKey w key) = None"
    using assms by (force simp add: map_of_eq_None_iff image_iff)
  then show ?thesis
    by (simp add: headerAfter_def map_of_header_fold map_of_HeaderSet map_add_def)
qed

text \<open>
  C10. \<open>StreamLoad\<close> fills in the defaults of the options and builds its request from the
  result: absent options are the empty options, an empty \<open>Format\<close> is \<open>json\<close> and a zero
  \<open>TimeoutSeconds\<close> is 300, and nothing else is changed; options that set both are used as
  given. The request so built carries the resulting format and timeout under the keys
  \<open>format\<close> and \<open>timeout\<close>, unless a later header of the same canonical key replaces
  them, and it is the request the call sends: the call ends with what the transport
  answers to it.
\<close>

theorem StreamLoad_defaults:
  "defaultedOptions None =
       \<lparr>Format = ''json'', ColumnSeparator = [], RowDelimiter = [], StripOuterArray = False,
        TimeoutSeconds = 300, MaxFilterRatio = 0, Headers = [], MergeCondition = [],
        TwoPhaseCommit = False, TransactionID = []\<rparr>
   \<and> (\<forall>given. defaultedOptions (Some given) =
         given\<lparr>Format := (if Format given = [] then ''json'' else Format given),
               TimeoutSeconds :=
                 (if TimeoutSeconds given = 0 then 300 else TimeoutSeconds given)\<rparr>)
   \<and> (\<forall>given. Format given \<noteq> [] \<and> TimeoutSeconds given \<noteq> 0 \<longrightarrow>
         defaultedOptions (Some given) = given)
   \<and> ((\<forall>k \<in> set [''column_separator'', ''row_delimiter'', ''strip_outer_array'',
                   ''max_filter_ratio'', ''timeout'', ''txn_id'', ''two_phase_commit'',
                   ''merge_condition''] \<union> fst ` set (Headers (defaultedOptions opts)).
           CanonicalMIMEHeaderKey w k \<noteq> CanonicalMIMEHeaderKey w ''format'') \<longrightarrow>
        map_of (Header (streamLoadRequest w c database table data opts))
          (CanonicalMIMEHeaderKey w ''format'') = Some (Format (defaultedOptions opts)))
   \<and> ((\<forall>k \<in> set [''txn_id'', ''two_phase_commit'', ''merge_condition''] \<union>
               fst ` set (Headers (defaultedOptions opts)).
           CanonicalMIMEHeaderKey w k \<noteq> CanonicalMIMEHeaderKey w ''timeout'') \<longrightarrow>
        map_of (Header (streamLoadRequest w c database table data opts))
          (CanonicalMIMEHeaderKey w ''timeout'') =
        Some (showInt (sint (TimeoutSeconds (defaultedOptions opts)))))
   \<and> (\<forall>e. Do w (streamLoadRequest w c database table data opts) = DoError e \<longrightarrow>
         snd (StreamLoad w c database table data opts) =
           (None, Some (Wrap e NetworkError ''StreamLoad request failed'')))
   \<and> (\<forall>sc st body resp.
         Do w (streamLoadRequest w c database table data opts) = Reply sc st body \<and>
         UnmarshalLoad w body = Inr resp \<longrightarrow>
         fst (snd (StreamLoad w c database table data opts)) = Some resp)"
proof -
  let ?o = "defaultedOptions opts"
  have n: "defaultedOptions None =
       \<lparr>Format = ''json'', ColumnSeparator = [], RowDelimiter = [], StripOuterArray = False,
        TimeoutSeconds = 300, MaxFilterRatio = 0, Headers = [], MergeCondition = [],
        TwoPhaseCommit = False, TransactionID = []\<rparr>"
    by (simp add: defaultedOptions_def)
  have g: "defaultedOptions (Some given) =
         given\<lparr>Format := (if Format given = [] then ''json'' else Format given),
               TimeoutSeconds :=
                 (if TimeoutSeconds given = 0 then 300 else TimeoutSeconds given)\<rparr>" for given
    by (simp add: defaultedOptions_def Let_def)
  have k: "Format given \<noteq> [] \<and> TimeoutSeconds given \<noteq> 0 \<longrightarrow>
         defaultedOptions (Some given) = given" for given
    by (simp add: defaultedOptions_def Let_def)
  have f: "map_of (Header (streamLoadRequest w c database table data opts))
          (CanonicalMIMEHeaderKey w ''format'') = Some (Format ?o)"
    if "\<forall>k \<in> set [''column_separator'', ''row_delimiter'', ''strip_outer_array'',
                   ''max_filter_ratio'', ''timeout'', ''txn_id'', ''two_phase_commit'',
                   ''merge_condition''] \<union> fst ` set (Headers ?o).
           CanonicalMIMEHeaderKey w k \<noteq> CanonicalMIMEHeaderKey w ''format''"
  proof -
    let ?later =
        "(if Format ?o = ''csv'' \<and> ColumnSeparator ?o \<noteq> []
          then [(''column_separator'', ColumnSeparator ?o)] else []) @
         (if Format ?o = ''csv'' \<and> RowDelimiter ?o \<noteq> []
          then [(''row_delimiter'', RowDelimiter ?o)] else []) @
         (if Format ?o = ''json'' \<and> StripOuterArray ?o
          then [(''strip_outer_array'', ''true'')] else []) @
         (if float64Positive (MaxFilterRatio ?o)
          then [(''max_filter_ratio'', FormatFloat w (MaxFilterRatio ?o))] else []) @
         [(''timeout'', showInt (sint (TimeoutSeconds ?o)))] @
         (if TwoPhaseCommit ?o \<and> TransactionID ?o \<noteq> []
          then [(''txn_id'', TransactionID ?o), (''two_phase_commit'', ''true'')] else []) @
         Headers ?o @
         (if MergeCondition ?o \<noteq> [] then [(''merge_condition'', MergeCondition ?o)] else [])"
    obtain later where calls: "streamLoadHeaderCalls w c ?o =
        [(''Authorization'', basicAuth w c), (''Expect'', ''100-continue''),
         (''Content-Type'', ''application/octet-stream'')] @ (''format'', Format ?o) # later"
      and sub: "fst ` set later \<subseteq>
        set [''column_separator'', ''row_delimiter'', ''strip_outer_array'',
             ''max_filter_ratio'', ''timeout'', ''txn_id'', ''two_phase_commit'',
             ''merge_condition''] \<union> fst ` set (Headers ?o)"
    proof
      show "streamLoadHeaderCalls w c ?o =
        [(''Authorization'', basicAuth w c), (''Expect'', ''100-continue''),
         (''Content-Type'', ''application/octet-stream'')] @ (''format'', Format ?o) # ?later"
        by (simp add: streamLoadHeaderCalls_def)
      show "fst ` set ?later \<subseteq>
        set [''column_separator'', ''row_delimiter'', ''strip_outer_array'',
             ''max_filter_ratio'', ''timeout'', ''txn_id'', ''two_phase_commit'',
             ''merge_condition''] \<union> fst ` set (Headers ?o)"
        by auto
    qed
    from that sub
    have "\<forall>k \<in> fst ` set later. CanonicalMIMEHeaderKey w k \<noteq> CanonicalMIMEHeaderKey w ''format''"
      by blast
    from headerAfter_last [OF this] show ?thesis
      by (simp only: streamLoadRequest_def streamLoadHeaders_def calls Request.simps)
  qed
  have t: "map_of (Header (streamLoadRequest w c database table data opts))
          (CanonicalMIMEHeaderKey w ''timeout'') = Some (showInt (sint (TimeoutSeconds ?o)))"
    if "\<forall>k \<in> set [''txn_id'', ''two_phase_commit'', ''merge_condition''] \<union>
               fst ` set (Headers ?o).
           CanonicalMIMEHeaderKey w k \<noteq> CanonicalMIMEHeaderKey w ''timeout''"
  proof -
    obtain before later where calls: "streamLoadHeaderCalls w c ?o =
        before @ (''timeout'', showInt (sint (TimeoutSeconds ?o))) # later"
      and sub: "fst ` set later \<subseteq>
        set [''txn_id'', ''two_phase_commit'', ''merge_condition''] \<union> fst ` set (Headers ?o)"
    proof
      show "streamLoadHeaderCalls w c ?o =
        ([(''Authorization'', basicAuth w c),
          (''Expect'', ''100-continue''),
          (''Content-Type'', ''application/octet-stream''),
          (''format'', Format ?o)] @
         (if Format ?o = ''csv'' \<and> ColumnSeparator ?o \<noteq> []
          then [(''column_separator'', ColumnSeparator ?o)] else []) @
         (if Format ?o = ''csv'' \<and> RowDelimiter ?o \<noteq> []
          then [(''row_delimiter'', RowDelimiter ?o)] else []) @
         (if Format ?o = ''json'' \<and> StripOuterArray ?o
          then [(''strip_outer_array'', ''true'')] else []) @
         (if float64Positive (MaxFilterRatio ?o)
          then [(''max_filter_ratio'', FormatFloat w (MaxFilterRatio ?o))] else [])) @
        (''timeout'', showInt (sint (TimeoutSeconds ?o))) #
        ((if TwoPhaseCommit ?o \<and> TransactionID ?o \<noteq> []
          then [(''txn_id'', TransactionID ?o), (''two_phase_commit'', ''true'')] else []) @
         Headers ?o @
         (if MergeCondition ?o \<noteq> [] then [(''merge_condition'', MergeCondition ?o)] else []))"
        by (simp add: streamLoadHeaderCalls_def)
      show "fst ` set ((if TwoPhaseCommit ?o \<and> TransactionID ?o \<noteq> []
          then [(''txn_id'', TransactionID ?o), (''two_phase_commit'', ''true'')] else []) @
         Headers ?o @
         (if MergeCondition ?o \<noteq> [] then [(''merge_condition'', MergeCondition ?o)] else []))
        \<subseteq> set [''txn_id'', ''two_phase_commit'', ''merge_condition''] \<union> fst ` set (Headers ?o)"
        by auto
    qed
    from that sub
    have "\<forall>k \<in> fst ` set later. CanonicalMIMEHeaderKey w k \<noteq> CanonicalMIMEHeaderKey w ''timeout''"
      by blast
    from headerAfter_last [OF this] show ?thesis
      by (simp only: streamLoadRequest_def streamLoadHeaders_def calls Request.simps)
  qed
  have d: "Do w (streamLoadRequest w c database table data opts) = DoError e \<longrightarrow>
         snd (StreamLoad w c database table data opts) =
           (None, Some (Wrap e NetworkError ''StreamLoad request failed''))" for e
    by (simp add: StreamLoad_def Let_def)
  have r: "Do w (streamLoadRequest w c database table data opts) = Reply sc st body \<and>
         UnmarshalLoad w body = Inr resp \<longrightarrow>
         fst (snd (StreamLoad w c database table data opts)) = Some resp" for sc st body resp
    by (simp add: StreamLoad_def Let_def)
  from n g k f t d r show ?thesis
    by blast
qed

text \<open>
  The theorem at the client of one host: options that set \<open>csv\<close> and 60 seconds are used
  as given and reach the request, absent options reach it as \<open>json\<close> and 300 seconds, a
  transport that refuses the connection makes the call fail with a \<open>NetworkError\<close>, and a
  transport that answers makes it return the decoded response.
\<close>

theorem StreamLoad_defaults_witness:
  "defaultedOptions (Some csvOptions) = csvOptions
   \<and> map_of (Header (streamLoadRequest (mockWorld (DoError ''connection refused''))
                exampleClient ''logs'' ''events'' ''1,2'' (Some csvOptions))) ''Format'' =
       Some ''csv''
   \<and> map_of (Header (streamLoadRequest (mockWorld (DoError ''connection refused''))
                exampleClient ''logs'' ''events'' ''1,2'' (Some csvOptions))) ''Timeout'' =
       Some ''60''
   \<and> map_of (Header (streamLoadRequest (mockWorld (DoError ''connection refused''))
                exampleClient ''logs'' ''events'' ''[]'' None)) ''Format'' =
       Some ''json''
   \<and> map_of (Header (streamLoadRequest (mockWorld (DoError ''connection refused''))
                exampleClient ''logs'' ''events'' ''[]'' None)) ''Timeout'' =
       Some ''300''
   \<and> snd (StreamLoad (mockWorld (DoError ''connection refused'')) exampleClient
            ''logs'' ''events'' ''1,2'' (Some csvOptions)) =
       (None, Some (Wrap ''connection refused'' NetworkError ''StreamLoad request failed''))
   \<and> fst (snd (StreamLoad (mockWorld (Reply 200 ''200 OK'' publishTimeoutBody)) exampleClient
                 ''logs'' ''events'' ''[]'' None)) =
       Some publishTimeoutResponse"
proof -
  let ?E = "mockWorld (DoError ''connection refused'')"
  let ?P = "mockWorld (Reply 200 ''200 OK'' publishTimeoutBody)"
  note C = StreamLoad_defaults [of "Some csvOptions" ?E exampleClient "''logs''" "''events''"
      "''1,2''"]
  note N = StreamLoad_defaults [of None ?E exampleClient "''logs''" "''events''" "''[]''"]
  note R = StreamLoad_defaults [of None ?P exampleClient "''logs''" "''events''" "''[]''"]
  have cf: "CanonicalMIMEHeaderKey ?E ''format'' = ''Format''"
    and ct: "CanonicalMIMEHeaderKey ?E ''timeout'' = ''Timeout''"
    by code_simp+
  have f: "Format csvOptions \<noteq> [] \<and> TimeoutSeconds csvOptions \<noteq> 0"
    by (simp add: csvOptions_def)
  with C have k: "defaultedOptions (Some csvOptions) = csvOptions"
    by blast
  have fc: "Format csvOptions = ''csv''"
    and tc: "showInt (sint (TimeoutSeconds csvOptions)) = ''60''"
    and fn: "Format (defaultedOptions None) = ''json''"
    and tn: "showInt (sint (TimeoutSeconds (defaultedOptions None))) = ''300''"
    by code_simp+
  have "\<forall>k \<in> set [''column_separator'', ''row_delimiter'', ''strip_outer_array'',
                   ''max_filter_ratio'', ''timeout'', ''txn_id'', ''two_phase_commit'',
                   ''merge_condition''] \<union> fst ` set (Headers (defaultedOptions (Some csvOptions))).
           CanonicalMIMEHeaderKey ?E k \<noteq> CanonicalMIMEHeaderKey ?E ''format''"
    by code_simp
  with C have "map_of (Header (streamLoadRequest ?E exampleClient ''logs'' ''events'' ''1,2''
                 (Some csvOptions))) (CanonicalMIMEHeaderKey ?E ''format'') =
               Some (Format (defaultedOptions (Some csvOptions)))"
    by blast
  then have a1: "map_of (Header (streamLoadRequest ?E exampleClient ''logs'' ''events'' ''1,2''
                 (Some csvOptions))) ''Format'' = Some ''csv''"
    by (simp only: cf k fc)
  have "\<forall>k \<in> set [''txn_id'', ''two_phase_commit'', ''merge_condition''] \<union>
               fst ` set (Headers (defaultedOptions (Some csvOptions))).
           CanonicalMIMEHeaderKey ?E k \<noteq> CanonicalMIMEHeaderKey ?E ''timeout''"
    by code_simp
  with C have "map_of (Header (streamLoadRequest ?E exampleClient ''logs'' ''events'' ''1,2''
                 (Some csvOptions))) (CanonicalMIMEHeaderKey ?E ''timeout'') =
               Some (showInt (sint (TimeoutSeconds (defaultedOptions (Some csvOptions)))))"
    by blast
  then have a2: "map_of (Header (streamLoadRequest ?E exampleClient ''logs'' ''events'' ''1,2''
                 (Some csvOptions))) ''Timeout'' = Some ''60''"
    by (simp only: ct k tc)
  have "\<forall>k \<in> set [''column_separator'', ''row_delimiter'', ''strip_outer_array'',
                   ''max_filter_ratio'', ''timeout'', ''txn_id'', ''two_phase_commit'',
                   ''merge_condition''] \<union> fst ` set (Headers (defaultedOptions None)).
           CanonicalMIMEHeaderKey ?E k \<noteq> CanonicalMIMEHeaderKey ?E ''format''"
    by code_simp
  with N have "map_of (Header (streamLoadRequest ?E exampleClient ''logs'' ''events'' ''[]''
                 None)) (CanonicalMIMEHeaderKey ?E ''format'') =
               Some (Format (defaultedOptions None))"
    by blast
  then have a3: "map_of (Header (streamLoadRequest ?E exampleClient ''logs'' ''events'' ''[]''
                 None)) ''Format'' = Some ''json''"
    by (simp only: cf fn)
  have "\<forall>k \<in> set [''txn_id'', ''two_phase_commit'', ''merge_condition''] \<union>
               fst ` set (Headers (defaultedOptions None)).
           CanonicalMIMEHeaderKey ?E k \<noteq> CanonicalMIMEHeaderKey ?E ''timeout''"
    by code_simp
  with N have "map_of (Header (streamLoadRequest ?E exampleClient ''logs'' ''events'' ''[]''
                 None)) (CanonicalMIMEHeaderKey ?E ''timeout'') =
               Some (showInt (sint (TimeoutSeconds (defaultedOptions None))))"
    by blast
  then have a4: "map_of (Header (streamLoadRequest ?E exampleClient ''logs'' ''events'' ''[]''
                 None)) ''Timeout'' = Some ''300''"
    by (simp only: ct tn)
  have "Do ?E (streamLoadRequest ?E exampleClient ''logs'' ''events'' ''1,2'' (Some csvOptions)) =
          DoError ''connection refused''"
    by (simp add: mockWorld_def)
  with C have a5: "snd (StreamLoad ?E exampleClient ''logs'' ''events'' ''1,2'' (Some csvOptions)) =
       (None, Some (Wrap ''connection refused'' NetworkError ''StreamLoad request failed''))"
    by blast
  have "Do ?P (streamLoadRequest ?P exampleClient ''logs'' ''events'' ''[]'' None) =
          Reply 200 ''200 OK'' publishTimeoutBody \<and>
        UnmarshalLoad ?P publishTimeoutBody = Inr publishTimeoutResponse"
    by (simp add: mockWorld_def exampleUnmarshalLoad_def)
  with R have a6: "fst (snd (StreamLoad ?P exampleClient ''logs'' ''events'' ''[]'' None)) =
       Some publishTimeoutResponse"
    by blast
  from k a1 a2 a3 a4 a5 a6 show ?thesis
    by blast
qed

text \<open>
  A custom header whose key has the canonical form of \<open>format\<close> replaces the header made
  from the options: with the format left unset and a custom header \<open>format: csv\<close>, the
  options default to \<open>json\<close> and the request says \<open>csv\<close>.
\<close>

lemma custom_header_replaces_format:
  "Format (defaultedOptions (Some overridingOptions)) = ''json''
   \<and> map_of (Header (streamLoadRequest (mockWorld (DoError ''connection refused''))
                exampleClient ''logs'' ''events'' ''1,2'' (Some overridingOptions))) ''Format'' =
       Some ''csv''"
  by code_simp

text \<open>
  C2, as amended. Take two \<open>Begin\<close> calls with the same database, table, label and
  timeout, the engine answering the first with \<open>Success\<close>. The first returns the
  transaction id of its reply. The second returns the id of its own reply when that status
  is \<open>Success\<close>, and a \<open>DatabaseError\<close> for any other status; so it equals the first call's
  result exactly when the engine answers \<open>Success\<close> with the same id. The result is an id
  or an error and nothing else: no field of the reply but status, id and message reaches
  the caller.
\<close>

theorem begin_twice:
  assumes "Do w1 (beginRequest w1 c r1 database table label timeoutSeconds) = Reply sc1 st1 body1"
    and "UnmarshalBegin w1 body1 = Inr resp1"
    and "BeginStatus resp1 = ''Success''"
    and "Do w2 (beginRequest w2 c r2 database table label timeoutSeconds) = Reply sc2 st2 body2"
    and "UnmarshalBegin w2 body2 = Inr resp2"
  shows "BeginTransaction w1 c r1 database table label timeoutSeconds = Inr (BeginTxnID resp1)
       \<and> (BeginStatus resp2 = ''Success'' \<longrightarrow>
            BeginTransaction w2 c r2 database table label timeoutSeconds = Inr (BeginTxnID resp2))
       \<and> (BeginStatus resp2 \<noteq> ''Success'' \<longrightarrow>
            BeginTransaction w2 c r2 database table label timeoutSeconds =
              Inl \<lparr>Code = DatabaseError,
                   Message = ''failed to begin transaction: '' @ BeginStatus resp2 @ '' - '' @
                             BeginMsg resp2,
                   Err = None\<rparr>)
       \<and> (BeginTransaction w2 c r2 database table label timeoutSeconds =
            BeginTransaction w1 c r1 database table label timeoutSeconds \<longleftrightarrow>
          BeginStatus resp2 = ''Success'' \<and> BeginTxnID resp2 = BeginTxnID resp1)"
  using assms by (simp add: BeginTransaction_def New_def Let_def)

theorem begin_twice_witness:
  "BeginTransaction (mockWorld (Reply 200 ''200 OK'' beginNewBody)) exampleClient 0
     ''logs'' ''events'' ''load-1'' 600 = Inr 1001
   \<and> (\<exists>e. BeginTransaction (mockWorld (Reply 200 ''200 OK'' beginDuplicateRejectedBody))
            exampleClient 0 ''logs'' ''events'' ''load-1'' 600 = Inl e \<and> Code e = DatabaseError)"
proof -
  let ?N = "mockWorld (Reply 200 ''200 OK'' beginNewBody)"
  let ?D = "mockWorld (Reply 200 ''200 OK'' beginDuplicateRejectedBody)"
  have dn: "Do ?N (beginRequest ?N exampleClient 0 ''logs'' ''events'' ''load-1'' 600) =
              Reply 200 ''200 OK'' beginNewBody"
    by (simp add: mockWorld_def)
  have dd: "Do ?D (beginRequest ?D exampleClient 0 ''logs'' ''events'' ''load-1'' 600) =
              Reply 200 ''200 OK'' beginDuplicateRejectedBody"
    by (simp add: mockWorld_def)
  have n: "UnmarshalBegin ?N beginNewBody =
             Inr \<lparr>BeginStatus = ''Success'', BeginTxnID = 1001, BeginMsg = []\<rparr>"
    by (simp add: mockWorld_def exampleUnmarshalBegin_def)
  have "beginDuplicateRejectedBody \<noteq> beginNewBody"
    and "beginDuplicateRejectedBody \<noteq> beginDuplicateAcceptedBody"
    by code_simp+
  then have j: "UnmarshalBegin ?D beginDuplicateRejectedBody =
             Inr \<lparr>BeginStatus = ''Label Already Exists'', BeginTxnID = 0,
                  BeginMsg = ''label in use''\<rparr>"
    by (simp add: mockWorld_def exampleUnmarshalBegin_def)
  have s: "BeginStatus \<lparr>BeginStatus = ''Success'', BeginTxnID = 1001, BeginMsg = []\<rparr> = ''Success''"
    by simp
  show ?thesis
    using begin_twice [OF dn n s dd j]
    by simp
qed

text \<open>
  C2 as stated fails. After a first \<open>Begin\<close> that returns id 1001, a reply to the second
  that reports the duplicate label with a status other than \<open>Success\<close> makes the second
  call return a \<open>DatabaseError\<close>, although the body names the existing id; and a reply
  that reports it with \<open>Success\<close> makes the second call return what the first returned,
  so the caller cannot tell it from a new transaction.
\<close>

theorem begin_duplicate_label:
  "BeginTransaction (mockWorld (Reply 200 ''200 OK'' beginNewBody)) exampleClient 0
     ''logs'' ''events'' ''load-1'' 600 = Inr 1001
   \<and> BeginTransaction (mockWorld (Reply 200 ''200 OK'' beginDuplicateRejectedBody)) exampleClient 0
       ''logs'' ''events'' ''load-1'' 600 =
     Inl \<lparr>Code = DatabaseError,
          Message = ''failed to begin transaction: Label Already Exists - label in use'',
          Err = None\<rparr>
   \<and> BeginTransaction (mockWorld (Reply 200 ''200 OK'' beginDuplicateAcceptedBody)) exampleClient 0
       ''logs'' ''events'' ''load-1'' 600 =
     BeginTransaction (mockWorld (Reply 200 ''200 OK'' beginNewBody)) exampleClient 0
       ''logs'' ''events'' ''load-1'' 600"
  by code_simp

end
